theory Spec2Isabelle
  imports Complex_Main
begin

section \<open>Python values used by main.py\<close>

text \<open>
  A Python \<^verbatim>\<open>str\<close> is a sequence of Unicode code points, so a password is a list of
  code points and \<^verbatim>\<open>len\<close> is the length of that list. The fixed messages and rating
  labels of the program are ASCII and are kept as HOL strings.
\<close>

type_synonym pystr = "nat list"

definition str :: "string \<Rightarrow> pystr" where
  "str s = map of_char s"

text \<open>
  \<^verbatim>\<open>str.islower\<close>, \<^verbatim>\<open>str.isupper\<close>, \<^verbatim>\<open>str.isdigit\<close>, \<^verbatim>\<open>str.isspace\<close>, \<^verbatim>\<open>str.lower\<close>
  and the regular expression class \<^verbatim>\<open>\d\<close> consult the Unicode character database of
  the interpreter. On U+0000..U+00FF their values are written out below. Above U+00FF
  the database is a parameter of the model: a record of the five predicates and of the
  lower-casing of one position of a string (which may produce several code points and,
  for capital sigma, depends on the neighbours).
\<close>

record unicode =
  uc_islower :: "nat \<Rightarrow> bool"
  uc_isupper :: "nat \<Rightarrow> bool"
  uc_isdigit :: "nat \<Rightarrow> bool"
  uc_isdecimal :: "nat \<Rightarrow> bool"
  uc_isspace :: "nat \<Rightarrow> bool"
  uc_lower :: "pystr \<Rightarrow> nat \<Rightarrow> pystr"

text \<open>The database that classifies no character above U+00FF and leaves it unchanged.\<close>

definition latin1_only :: unicode where
  "latin1_only =
     \<lparr>uc_islower = (\<lambda>c. False), uc_isupper = (\<lambda>c. False), uc_isdigit = (\<lambda>c. False),
      uc_isdecimal = (\<lambda>c. False), uc_isspace = (\<lambda>c. False), uc_lower = (\<lambda>s i. [s ! i])\<rparr>"

definition islower :: "unicode \<Rightarrow> nat \<Rightarrow> bool" where
  \<comment> \<open>a-z, feminine and masculine ordinal, micro sign, sharp s to y with diaeresis
      except the division sign\<close>
  "islower U c =
     (if c < 256
      then (97 \<le> c \<and> c \<le> 122) \<or> c = 170 \<or> c = 181 \<or> c = 186 \<or>
           (223 \<le> c \<and> c \<le> 246) \<or> (248 \<le> c \<and> c \<le> 255)
      else uc_islower U c)"

definition isupper :: "unicode \<Rightarrow> nat \<Rightarrow> bool" where
  \<comment> \<open>A-Z, A with grave to thorn except the multiplication sign\<close>
  "isupper U c =
     (if c < 256
      then (65 \<le> c \<and> c \<le> 90) \<or> (192 \<le> c \<and> c \<le> 214) \<or> (216 \<le> c \<and> c \<le> 222)
      else uc_isupper U c)"

definition isdigit :: "unicode \<Rightarrow> nat \<Rightarrow> bool" where
  \<comment> \<open>0-9 and the superscripts two, three and one\<close>
  "isdigit U c =
     (if c < 256
      then (48 \<le> c \<and> c \<le> 57) \<or> c = 178 \<or> c = 179 \<or> c = 185
      else uc_isdigit U c)"

definition isdecimal :: "unicode \<Rightarrow> nat \<Rightarrow> bool" where
  \<comment> \<open>what \<^verbatim>\<open>\d\<close> matches in a \<^verbatim>\<open>str\<close> pattern: general category Nd\<close>
  "isdecimal U c = (if c < 256 then 48 \<le> c \<and> c \<le> 57 else uc_isdecimal U c)"

definition isspace :: "unicode \<Rightarrow> nat \<Rightarrow> bool" where
  \<comment> \<open>tab to carriage return, the four separators, space, next line, no-break space\<close>
  "isspace U c =
     (if c < 256
      then (9 \<le> c \<and> c \<le> 13) \<or> (28 \<le> c \<and> c \<le> 32) \<or> c = 133 \<or> c = 160
      else uc_isspace U c)"

definition tolower_latin1 :: "nat \<Rightarrow> nat" where
  "tolower_latin1 c =
     (if (65 \<le> c \<and> c \<le> 90) \<or> (192 \<le> c \<and> c \<le> 214) \<or> (216 \<le> c \<and> c \<le> 222)
      then c + 32 else c)"

fun lower_from :: "unicode \<Rightarrow> pystr \<Rightarrow> nat \<Rightarrow> pystr \<Rightarrow> pystr" where
  "lower_from U s i [] = []"
| "lower_from U s i (c # cs) =
     (if c < 256 then [tolower_latin1 c] else uc_lower U s i) @ lower_from U s (Suc i) cs"

definition lower :: "unicode \<Rightarrow> pystr \<Rightarrow> pystr" where
  \<comment> \<open>\<^verbatim>\<open>s.lower()\<close>\<close>
  "lower U s = lower_from U s 0 s"

definition strip :: "unicode \<Rightarrow> pystr \<Rightarrow> pystr" where
  \<comment> \<open>\<^verbatim>\<open>s.strip()\<close>: leading and trailing whitespace removed\<close>
  "strip U s = rev (dropWhile (isspace U) (rev (dropWhile (isspace U) s)))"

fun contains :: "pystr \<Rightarrow> pystr \<Rightarrow> bool" where
  \<comment> \<open>\<^verbatim>\<open>pat in s\<close> on strings: \<open>pat\<close> occurs as a contiguous substring\<close>
  "contains pat [] = (pat = [])"
| "contains pat (c # cs) = (take (length pat) (c # cs) = pat \<or> contains pat cs)"

definition punctuation :: pystr where
  \<comment> \<open>\<^verbatim>\<open>string.punctuation\<close>: the 32 ASCII punctuation characters, in code order:
      exclamation mark to slash, colon to at sign, left bracket to backquote,
      left brace to tilde\<close>
  "punctuation =
     [33, 34, 35, 36, 37, 38, 39, 40, 41, 42, 43, 44, 45, 46, 47,
      58, 59, 60, 61, 62, 63, 64,
      91, 92, 93, 94, 95, 96,
      123, 124, 125, 126]"

text \<open>
  Python's \<^verbatim>\<open>float\<close> is modelled by \<^typ>\<open>real\<close>. The double range matters at one place of
  the program, \<^verbatim>\<open>2 ** entropy\<close>, which raises \<^verbatim>\<open>OverflowError\<close> when the result is out
  of the range of a double, that is when the exponent is 1024 or more.
  \<^verbatim>\<open>int(x)\<close> truncates toward zero; \<^verbatim>\<open>round(x, 1)\<close> is taken as rounding of the real
  number to one decimal (a tie rounds up here, to even in Python).
\<close>

datatype py_error = FileNotFoundError | PermissionError | IndexError | OverflowError

definition py_int :: "real \<Rightarrow> int" where
  "py_int x = (if 0 \<le> x then \<lfloor>x\<rfloor> else \<lceil>x\<rceil>)"

definition round1 :: "real \<Rightarrow> real" where
  "round1 x = of_int (round (x * 10)) / 10"

definition py_pow2 :: "real \<Rightarrow> py_error + real" where
  \<comment> \<open>\<^verbatim>\<open>2 ** x\<close> for a float \<open>x\<close>\<close>
  "py_pow2 x = (if 1024 \<le> x then Inl OverflowError else Inr (2 powr x))"

definition py_index :: "'a list \<Rightarrow> int \<Rightarrow> py_error + 'a" where
  \<comment> \<open>\<^verbatim>\<open>xs[i]\<close>: the indices \<open>-len(xs)\<close> to \<open>-1\<close> count from the end\<close>
  "py_index xs i =
     (if 0 \<le> i \<and> i < int (length xs) then Inr (xs ! nat i)
      else if i < 0 \<and> - int (length xs) \<le> i then Inr (xs ! nat (int (length xs) + i))
      else Inl IndexError)"

definition digit_char :: "nat \<Rightarrow> char" where
  "digit_char d = char_of (48 + d)"

function show_nat :: "nat \<Rightarrow> string" where
  "show_nat n = (if n < 10 then [digit_char n] else show_nat (n div 10) @ [digit_char (n mod 10)])"
  by pat_completeness auto
termination
  by (relation "measure id") auto

definition show_int :: "int \<Rightarrow> string" where
  \<comment> \<open>the decimal text an f-string gives an \<^verbatim>\<open>int\<close>\<close>
  "show_int i = (if i < 0 then CHR ''-'' # show_nat (nat (- i)) else show_nat (nat i))"

section \<open>The checker object\<close>

text \<open>
  The file \<^verbatim>\<open>common_passwords.txt\<close> as \<^verbatim>\<open>open\<close> finds it: absent, present but not
  readable by the process, or readable with the given lines (each as iteration over the
  file yields it, its newline included).
\<close>

datatype resource = Missing | Unreadable | Lines "pystr list"

definition open_file :: "resource \<Rightarrow> py_error + pystr list" where
  "open_file r =
     (case r of
        Missing \<Rightarrow> Inl FileNotFoundError
      | Unreadable \<Rightarrow> Inl PermissionError
      | Lines ls \<Rightarrow> Inr ls)"

record checker =
  password :: pystr
  length' :: nat
  score :: int
  feedback :: "string list"
  common_passwords :: "pystr set"

definition fallback_passwords :: "pystr set" where
  "fallback_passwords =
     {str ''password'', str ''123456'', str ''qwerty'', str ''abc123'', str ''admin'',
      str ''welcome''}"

definition load_common_passwords :: "unicode \<Rightarrow> resource \<Rightarrow> py_error + pystr set" where
  \<comment> \<open>only \<^verbatim>\<open>FileNotFoundError\<close> is caught\<close>
  "load_common_passwords U r =
     (case open_file r of
        Inr ls \<Rightarrow> Inr (set (map (strip U) ls))
      | Inl FileNotFoundError \<Rightarrow> Inr fallback_passwords
      | Inl e \<Rightarrow> Inl e)"

definition fresh :: "pystr set \<Rightarrow> pystr \<Rightarrow> checker" where
  \<comment> \<open>the fields \<^verbatim>\<open>__init__\<close> sets, given the set \<^verbatim>\<open>load_common_passwords\<close> returned\<close>
  "fresh cp pw =
     \<lparr>password = pw, length' = length pw, score = 0, feedback = [], common_passwords = cp\<rparr>"

definition init :: "unicode \<Rightarrow> resource \<Rightarrow> pystr \<Rightarrow> py_error + checker" where
  \<comment> \<open>\<^verbatim>\<open>PasswordStrengthChecker(password)\<close>\<close>
  "init U r pw =
     (case load_common_passwords U r of
        Inl e \<Rightarrow> Inl e
      | Inr cp \<Rightarrow> Inr (fresh cp pw))"

definition append_feedback :: "string \<Rightarrow> checker \<Rightarrow> checker" where
  "append_feedback m s = s\<lparr>feedback := feedback s @ [m]\<rparr>"

definition check_length :: "checker \<Rightarrow> int \<times> checker" where
  "check_length s =
     (if length' s < 8 then
        (0, append_feedback ''Password is too short (min 8 characters).'' s)
      else if length' s < 12 then
        (2, append_feedback ''Length is okay but could be longer.'' s)
      else if length' s < 16 then
        (3, append_feedback ''Good password length.'' s)
      else
        (4, append_feedback ''Excellent password length.'' s))"

definition check_character_types :: "unicode \<Rightarrow> checker \<Rightarrow> int \<times> checker" where
  "check_character_types U s =
     (let types =
            of_bool (list_ex (islower U) (password s)) +
            of_bool (list_ex (isupper U) (password s)) +
            of_bool (list_ex (isdigit U) (password s)) +
            of_bool (list_ex (\<lambda>c. c \<in> set punctuation) (password s))
      in if types < 3
         then (types, append_feedback ''Use a mix of upper, lower, digits, and special chars.'' s)
         else (types, s))"

definition bad_patterns :: "pystr list" where
  "bad_patterns = [str ''123'', str ''abc'', str ''qwerty'']"

definition check_common_patterns :: "unicode \<Rightarrow> checker \<Rightarrow> int \<times> checker" where
  "check_common_patterns U s =
     (let lowered = lower U (password s)
      in if list_ex (\<lambda>pat. contains pat lowered) bad_patterns
         then (- 2, append_feedback
                 (''Avoid common patterns like '' @ [CHR 0x27] @ ''123'' @ [CHR 0x27] @ '', '' @
                  [CHR 0x27] @ ''abc'' @ [CHR 0x27] @ '', '' @
                  [CHR 0x27] @ ''qwerty'' @ [CHR 0x27] @ ''.'') s)
         else (0, s))"

definition check_common_password :: "unicode \<Rightarrow> checker \<Rightarrow> int \<times> checker" where
  "check_common_password U s =
     (if lower U (password s) \<in> common_passwords s
      then (- 2, append_feedback ''This password is too common!'' s)
      else (0, s))"

definition charset_size :: "unicode \<Rightarrow> pystr \<Rightarrow> nat" where
  "charset_size U pw =
     (if list_ex (islower U) pw then 26 else 0) +
     (if list_ex (isupper U) pw then 26 else 0) +
     (if list_ex (isdigit U) pw then 10 else 0) +
     (if list_ex (\<lambda>c. c \<in> set punctuation) pw then 32 else 0)"

definition calculate_entropy :: "unicode \<Rightarrow> checker \<Rightarrow> real" where
  "calculate_entropy U s =
     (let cs = charset_size U (password s)
      in if cs \<noteq> 0 then real (length' s) * sqrt (real cs) else 0)"

definition estimate_crack_time :: "real \<Rightarrow> py_error + string" where
  "estimate_crack_time entropy =
     (case py_pow2 entropy of
        Inl e \<Rightarrow> Inl e
      | Inr p \<Rightarrow>
          (let guesses = p / 2;
               seconds = guesses / 10 ^ 12
           in if seconds < 60 then Inr ''less than a minute''
              else if seconds < 3600 then Inr (show_int (py_int (seconds / 60)) @ '' minutes'')
              else if seconds < 86400 then Inr (show_int (py_int (seconds / 3600)) @ '' hours'')
              else Inr (show_int (py_int (seconds / 86400)) @ '' days'')))"

text \<open>
  The dictionary \<^verbatim>\<open>evaluate\<close> returns, without \<^verbatim>\<open>time_taken\<close>: the two readings of
  \<^verbatim>\<open>perf_counter\<close> are not a function of the password.
\<close>

record result =
  rating :: string
  res_score :: int
  entropy :: real
  crack_time :: string
  res_feedback :: "string list"

definition rating_table :: "string list" where
  "rating_table = [''Very Weak'', ''Weak'', ''Moderate'', ''Strong'', ''Very Strong'']"

definition add_score :: "int \<times> checker \<Rightarrow> checker" where
  \<comment> \<open>\<^verbatim>\<open>self.score += v\<close> after the call that computed \<open>v\<close>\<close>
  "add_score p = (snd p)\<lparr>score := score (snd p) + fst p\<rparr>"

definition entropy_bonus :: "real \<Rightarrow> int" where
  "entropy_bonus e = min (py_int (e / 20)) 5"

definition scored :: "unicode \<Rightarrow> checker \<Rightarrow> checker" where
  \<comment> \<open>lines 83 to 88 of \<^verbatim>\<open>evaluate\<close>: the object after the five additions to \<^verbatim>\<open>self.score\<close>\<close>
  "scored U s =
     (let s1 = add_score (check_length s);
          s2 = add_score (check_character_types U s1);
          s3 = add_score (check_common_patterns U s2);
          s4 = add_score (check_common_password U s3)
      in s4\<lparr>score := score s4 + entropy_bonus (calculate_entropy U s4)\<rparr>)"

definition evaluate :: "unicode \<Rightarrow> checker \<Rightarrow> (py_error + result) \<times> checker" where
  \<comment> \<open>the outcome (the dictionary, or the exception that leaves the method) and the
      object as the call leaves it\<close>
  "evaluate U s =
     (let s5 = scored U s;
          e = calculate_entropy U s5
      in case py_index rating_table (min (score s5 div 3) 4) of
           Inl err \<Rightarrow> (Inl err, s5)
         | Inr final_rating \<Rightarrow>
             (case estimate_crack_time e of
                Inl err \<Rightarrow> (Inl err, s5)
              | Inr ct \<Rightarrow>
                  (Inr \<lparr>rating = final_rating, res_score = score s5, entropy = round1 e,
                        crack_time = ct, res_feedback = feedback s5\<rparr>, s5)))"

section \<open>The quick classifier\<close>

definition special_chars :: pystr where
  \<comment> \<open>the character class of the last \<^verbatim>\<open>re.search\<close>; the backslash of the pattern
      escapes the double quote and is not a member\<close>
  "special_chars = str ''!@#$%^&*(),.?'' @ [34] @ str '':{}|<>''"

definition simple_strength_check :: "unicode \<Rightarrow> pystr \<Rightarrow> string" where
  "simple_strength_check U pw =
     (if length pw < 8 then ''Weak''
      else if \<not> list_ex (\<lambda>c. 97 \<le> c \<and> c \<le> 122) pw then ''Weak''
      else if \<not> list_ex (\<lambda>c. 65 \<le> c \<and> c \<le> 90) pw then ''Weak''
      else if \<not> list_ex (isdecimal U) pw then ''Weak''
      else if \<not> list_ex (\<lambda>c. c \<in> set special_chars) pw then ''Weak''
      else if length pw < 12 then ''Moderate''
      else ''Strong'')"

section \<open>What the checks change and return\<close>

lemma append_feedback_fields [simp]:
  "password (append_feedback m s) = password s"
  "length' (append_feedback m s) = length' s"
  "score (append_feedback m s) = score s"
  "common_passwords (append_feedback m s) = common_passwords s"
  "feedback (append_feedback m s) = feedback s @ [m]"
  by (simp_all add: append_feedback_def)

lemma add_score_fields [simp]:
  "password (add_score p) = password (snd p)"
  "length' (add_score p) = length' (snd p)"
  "score (add_score p) = score (snd p) + fst p"
  "common_passwords (add_score p) = common_passwords (snd p)"
  "feedback (add_score p) = feedback (snd p)"
  by (simp_all add: add_score_def)

lemma check_length_frame [simp]:
  "password (snd (check_length s)) = password s"
  "length' (snd (check_length s)) = length' s"
  "score (snd (check_length s)) = score s"
  "common_passwords (snd (check_length s)) = common_passwords s"
  by (simp_all add: check_length_def)

lemma check_character_types_frame [simp]:
  "password (snd (check_character_types U s)) = password s"
  "length' (snd (check_character_types U s)) = length' s"
  "score (snd (check_character_types U s)) = score s"
  "common_passwords (snd (check_character_types U s)) = common_passwords s"
  by (simp_all add: check_character_types_def Let_def)

lemma check_common_patterns_frame [simp]:
  "password (snd (check_common_patterns U s)) = password s"
  "length' (snd (check_common_patterns U s)) = length' s"
  "score (snd (check_common_patterns U s)) = score s"
  "common_passwords (snd (check_common_patterns U s)) = common_passwords s"
  by (simp_all add: check_common_patterns_def Let_def)

lemma check_common_password_frame [simp]:
  "password (snd (check_common_password U s)) = password s"
  "length' (snd (check_common_password U s)) = length' s"
  "score (snd (check_common_password U s)) = score s"
  "common_passwords (snd (check_common_password U s)) = common_passwords s"
  by (simp_all add: check_common_password_def)

lemma check_length_cong:
  "length' s = length' t \<Longrightarrow> fst (check_length s) = fst (check_length t)"
  by (simp add: check_length_def)

lemma check_character_types_cong:
  "password s = password t \<Longrightarrow> fst (check_character_types U s) = fst (check_character_types U t)"
  by (simp add: check_character_types_def Let_def)

lemma check_common_patterns_cong:
  "password s = password t \<Longrightarrow> fst (check_common_patterns U s) = fst (check_common_patterns U t)"
  by (simp add: check_common_patterns_def Let_def)

lemma check_common_password_cong:
  "password s = password t \<Longrightarrow> common_passwords s = common_passwords t \<Longrightarrow>
   fst (check_common_password U s) = fst (check_common_password U t)"
  by (simp add: check_common_password_def)

lemma calculate_entropy_cong:
  "password s = password t \<Longrightarrow> length' s = length' t \<Longrightarrow>
   calculate_entropy U s = calculate_entropy U t"
  by (simp add: calculate_entropy_def Let_def)

lemma scored_frame [simp]:
  "password (scored U s) = password s"
  "length' (scored U s) = length' s"
  "common_passwords (scored U s) = common_passwords s"
  by (simp_all add: scored_def Let_def)

lemma scored_score:
  "score (scored U s) =
     score s + fst (check_length s) + fst (check_character_types U s) +
     fst (check_common_patterns U s) + fst (check_common_password U s) +
     entropy_bonus (calculate_entropy U s)"
proof -
  let ?s1 = "add_score (check_length s)"
  let ?s2 = "add_score (check_character_types U ?s1)"
  let ?s3 = "add_score (check_common_patterns U ?s2)"
  let ?s4 = "add_score (check_common_password U ?s3)"
  have a: "fst (check_character_types U ?s1) = fst (check_character_types U s)"
    by (rule check_character_types_cong) simp
  have b: "fst (check_common_patterns U ?s2) = fst (check_common_patterns U s)"
    by (rule check_common_patterns_cong) simp
  have c: "fst (check_common_password U ?s3) = fst (check_common_password U s)"
    by (rule check_common_password_cong) simp_all
  have d: "calculate_entropy U ?s4 = calculate_entropy U s"
    by (rule calculate_entropy_cong) simp_all
  show ?thesis
    by (simp add: scored_def Let_def a b c d)
qed

lemma calculate_entropy_scored [simp]:
  "calculate_entropy U (scored U s) = calculate_entropy U s"
  by (rule calculate_entropy_cong) simp_all

lemma check_length_range: "fst (check_length s) \<in> {0, 2, 3, 4}"
  by (simp add: check_length_def)

lemma check_character_types_range:
  "0 \<le> fst (check_character_types U s) \<and> fst (check_character_types U s) \<le> 4"
  by (simp add: check_character_types_def Let_def of_bool_def)

lemma check_common_patterns_range: "fst (check_common_patterns U s) \<in> {0, - 2}"
  by (simp add: check_common_patterns_def Let_def)

lemma check_common_password_range: "fst (check_common_password U s) \<in> {0, - 2}"
  by (simp add: check_common_password_def)

lemma calculate_entropy_nonneg: "0 \<le> calculate_entropy U s"
  by (simp add: calculate_entropy_def Let_def)

lemma entropy_bonus_range: "0 \<le> e \<Longrightarrow> 0 \<le> entropy_bonus e \<and> entropy_bonus e \<le> 5"
  by (simp add: entropy_bonus_def py_int_def)

lemma scored_score_bounds:
  "score s - 4 \<le> score (scored U s) \<and> score (scored U s) \<le> score s + 13"
  using check_length_range [of s] check_character_types_range [of U s]
    check_common_patterns_range [of U s] check_common_password_range [of U s]
    entropy_bonus_range [OF calculate_entropy_nonneg, of U s]
  by (auto simp add: scored_score)

lemma py_index_in_range:
  "- int (length xs) \<le> i \<Longrightarrow> i < int (length xs) \<Longrightarrow>
   \<exists>l. py_index xs i = Inr l \<and> l \<in> set xs"
  by (simp add: py_index_def)

lemma py_index_rating_table:
  "- 5 \<le> i \<Longrightarrow> i \<le> 4 \<Longrightarrow> \<exists>l. py_index rating_table i = Inr l \<and> l \<in> set rating_table"
  by (rule py_index_in_range) (simp_all add: rating_table_def)

section \<open>Arithmetic of the entropy estimate\<close>

lemma len_sqrt: "real L * sqrt (real c) = sqrt (real (L * L * c))"
  by (simp add: real_sqrt_mult)

lemma len_sqrt_less: "real L * sqrt (real c) < real k \<longleftrightarrow> L * L * c < k * k"
proof -
  have "real k = sqrt (real (k * k))" by simp
  then have "real L * sqrt (real c) < real k \<longleftrightarrow> sqrt (real (L * L * c)) < sqrt (real (k * k))"
    by (simp only: len_sqrt)
  also have "\<dots> \<longleftrightarrow> L * L * c < k * k"
    by (simp only: real_sqrt_less_iff of_nat_less_iff)
  finally show ?thesis .
qed

lemma len_sqrt_le: "real k \<le> real L * sqrt (real c) \<longleftrightarrow> k * k \<le> L * L * c"
  using len_sqrt_less [of L c k] by (simp add: not_less [symmetric])

lemma entropy_bonus_eq:
  assumes "20 * real k \<le> e" "e < 20 * real (Suc k)" "k \<le> 5"
  shows "entropy_bonus e = int k"
proof -
  have "0 \<le> 20 * real k" by simp
  then have "0 \<le> e" using assms(1) by (rule order_trans)
  have "\<lfloor>e / 20\<rfloor> = int k"
    using assms(1,2) by (intro floor_unique) (simp_all add: field_simps)
  then show ?thesis using \<open>0 \<le> e\<close> assms(3) by (simp add: entropy_bonus_def py_int_def)
qed

lemma crack_time_short:
  assumes "e \<le> 46"
  shows "estimate_crack_time e = Inr ''less than a minute''"
proof -
  have "(2::real) powr e \<le> 2 powr 46" using assms by (intro powr_mono) simp_all
  also have "\<dots> = 2 ^ 46" by simp
  finally have "(2::real) powr e \<le> 2 ^ 46" .
  then have "2 powr e / 2 / 10 ^ 12 < (60::real)" by (simp add: field_simps)
  then show ?thesis using assms by (simp add: estimate_crack_time_def py_pow2_def Let_def)
qed

lemma calculate_entropy_eq:
  "calculate_entropy U s = real (length' s) * sqrt (real (charset_size U (password s)))"
  by (simp add: calculate_entropy_def Let_def)

lemma entropy_bonus_value:
  assumes "length' s = L" and "charset_size U (password s) = c"
    and "(20 * k) * (20 * k) \<le> L * L * c" and "L * L * c < (20 * Suc k) * (20 * Suc k)"
    and "k \<le> 5"
  shows "entropy_bonus (calculate_entropy U s) = int k"
proof -
  have "real (20 * k) \<le> real L * sqrt (real c)"
    using assms(3) by (simp only: len_sqrt_le)
  moreover have "real L * sqrt (real c) < real (20 * Suc k)"
    using assms(4) by (simp only: len_sqrt_less)
  ultimately have "entropy_bonus (real L * sqrt (real c)) = int k"
    using assms(5) by (intro entropy_bonus_eq) simp_all
  then show ?thesis by (simp add: calculate_entropy_eq assms(1,2))
qed

lemma entropy_below:
  assumes "length' s = L" and "charset_size U (password s) = c" and "L * L * c < k * k"
  shows "calculate_entropy U s < real k"
  using assms(3) by (simp only: calculate_entropy_eq assms(1,2) len_sqrt_less)

lemma entropy_at_least:
  assumes "length' s = L" and "charset_size U (password s) = c" and "k * k \<le> L * L * c"
  shows "real k \<le> calculate_entropy U s"
  using assms(3) by (simp only: calculate_entropy_eq assms(1,2) len_sqrt_le)

lemma crack_time_overflow: "1024 \<le> e \<Longrightarrow> estimate_crack_time e = Inl OverflowError"
  by (simp add: estimate_crack_time_def py_pow2_def)

lemma crack_time_defined: "e < 1024 \<Longrightarrow> \<exists>t. estimate_crack_time e = Inr t"
  by (simp add: estimate_crack_time_def py_pow2_def Let_def)

section \<open>Evaluation\<close>

lemma evaluate_snd [simp]: "snd (evaluate U s) = scored U s"
  by (simp add: evaluate_def Let_def split: sum.splits)

lemma fresh_fields [simp]:
  "password (fresh cp pw) = pw"
  "length' (fresh cp pw) = length pw"
  "score (fresh cp pw) = 0"
  "feedback (fresh cp pw) = []"
  "common_passwords (fresh cp pw) = cp"
  by (simp_all add: fresh_def)

lemma evaluate_returns:
  assumes "- 5 \<le> score (scored U s) div 3" and "calculate_entropy U s < 1024"
  shows "\<exists>r. evaluate U s = (Inr r, scored U s) \<and> res_score r = score (scored U s) \<and>
    py_index rating_table (min (score (scored U s) div 3) 4) = Inr (rating r) \<and>
    rating r \<in> set rating_table \<and> res_feedback r = feedback (scored U s)"
proof -
  obtain l where l: "py_index rating_table (min (score (scored U s) div 3) 4) = Inr l"
      "l \<in> set rating_table"
    using py_index_rating_table [of "min (score (scored U s) div 3) 4"] assms(1) by auto
  obtain t where t: "estimate_crack_time (calculate_entropy U s) = Inr t"
    using crack_time_defined [OF assms(2)] by auto
  show ?thesis using l t by (simp add: evaluate_def Let_def)
qed

lemma evaluate_overflows:
  assumes "- 5 \<le> score (scored U s) div 3" and "1024 \<le> calculate_entropy U s"
  shows "evaluate U s = (Inl OverflowError, scored U s)"
proof -
  obtain l where l: "py_index rating_table (min (score (scored U s) div 3) 4) = Inr l"
    using py_index_rating_table [of "min (score (scored U s) div 3) 4"] assms(1) by auto
  show ?thesis using l assms(2) by (simp add: evaluate_def Let_def crack_time_overflow)
qed

lemma div3_lower: "- 15 \<le> (x::int) \<Longrightarrow> - 5 \<le> x div 3"
  by presburger

lemma fresh_index_ok: "- 5 \<le> score (scored U (fresh cp pw)) div 3"
  using scored_score_bounds [of "fresh cp pw" U] by (intro div3_lower) simp

lemma init_Missing: "init U Missing pw = Inr (fresh fallback_passwords pw)"
  by (simp add: init_def load_common_passwords_def open_file_def)

lemmas concrete =
  str_def lower_def tolower_latin1_def islower_def isupper_def isdigit_def isdecimal_def
  punctuation_def bad_patterns_def fallback_passwords_def charset_size_def

lemma score_123456: "score (scored U (fresh fallback_passwords (str ''123456''))) = - 3"
proof -
  let ?s = "fresh fallback_passwords (str ''123456'')"
  have a: "fst (check_length ?s) = 0" by (simp add: check_length_def str_def)
  have b: "fst (check_character_types U ?s) = 1"
    by (simp add: check_character_types_def Let_def concrete)
  have c: "fst (check_common_patterns U ?s) = - 2"
    by (simp add: check_common_patterns_def Let_def concrete)
  have d: "fst (check_common_password U ?s) = - 2"
    by (simp add: check_common_password_def concrete)
  have "entropy_bonus (calculate_entropy U ?s) = int 0"
    by (rule entropy_bonus_value [where L = 6 and c = 10]) (simp_all add: concrete)
  with a b c d show ?thesis by (simp add: scored_score)
qed

lemma entropy_123456:
  "calculate_entropy U (fresh fallback_passwords (str ''123456'')) < real 1024"
  by (rule entropy_below [where L = 6 and c = 10]) (simp_all add: concrete)

text \<open>
  Claim C1. The claim: for every password the rating is
  \<open>rating_table[clamp(floor(score/3), 0, 4)]\<close>, so that every negative score yields
  "Very Weak". The program clamps the index above only, and a negative index into a
  Python list counts from the end: with the fallback set the password \<^verbatim>\<open>123456\<close> has
  score \<open>-3\<close>, index \<open>-1\<close>, and is rated "Very Strong".
\<close>

theorem negative_score_rating_wraps:
  "init U Missing (str ''123456'') = Inr (fresh fallback_passwords (str ''123456'')) \<and>
   (\<exists>r. fst (evaluate U (fresh fallback_passwords (str ''123456''))) = Inr r \<and>
        res_score r = - 3 \<and> rating r = ''Very Strong'')"
proof -
  obtain r where r: "evaluate U (fresh fallback_passwords (str ''123456'')) =
        (Inr r, scored U (fresh fallback_passwords (str ''123456'')))"
      "res_score r = - 3"
      "py_index rating_table (min (- 3 div 3) 4) = Inr (rating r)"
    using evaluate_returns [OF fresh_index_ok, of U fallback_passwords "str ''123456''"]
      entropy_123456 [of U]
    by (auto simp add: score_123456)
  from r(3) have "rating r = ''Very Strong''"
    by (simp add: py_index_def rating_table_def)
  with r(1,2) show ?thesis by (simp add: init_Missing)
qed

lemma score_password: "score (scored U (fresh fallback_passwords (str ''password''))) = 3"
proof -
  let ?s = "fresh fallback_passwords (str ''password'')"
  have a: "fst (check_length ?s) = 2" by (simp add: check_length_def str_def)
  have b: "fst (check_character_types U ?s) = 1"
    by (simp add: check_character_types_def Let_def concrete)
  have c: "fst (check_common_patterns U ?s) = 0"
    by (simp add: check_common_patterns_def Let_def concrete)
  have d: "fst (check_common_password U ?s) = - 2"
    by (simp add: check_common_password_def concrete)
  have "entropy_bonus (calculate_entropy U ?s) = int 2"
    by (rule entropy_bonus_value [where L = 8 and c = 26]) (simp_all add: concrete)
  with a b c d show ?thesis by (simp add: scored_score)
qed

lemma entropy_password:
  "calculate_entropy U (fresh fallback_passwords (str ''password'')) < real 1024"
  by (rule entropy_below [where L = 8 and c = 26]) (simp_all add: concrete)

lemma rating_password:
  "\<exists>r. fst (evaluate U (fresh fallback_passwords (str ''password''))) = Inr r \<and>
        res_score r = 3 \<and> rating r = ''Weak''"
proof -
  obtain r where r: "evaluate U (fresh fallback_passwords (str ''password'')) =
        (Inr r, scored U (fresh fallback_passwords (str ''password'')))"
      "res_score r = 3"
      "py_index rating_table (min (3 div 3) 4) = Inr (rating r)"
    using evaluate_returns [OF fresh_index_ok, of U fallback_passwords "str ''password''"]
      entropy_password [of U]
    by (auto simp add: score_password)
  from r(3) have "rating r = ''Weak''"
    by (simp add: py_index_def rating_table_def)
  with r(1,2) show ?thesis by simp
qed

text \<open>
  Claim C2, as stated, fails: with the fallback set the password \<^verbatim>\<open>password\<close> is
  rated "Weak", not "Very Weak".
\<close>

theorem password_rating_not_very_weak:
  "(case fst (evaluate latin1_only (fresh fallback_passwords (str ''password''))) of
      Inl e \<Rightarrow> False
    | Inr r \<Rightarrow> rating r = ''Weak'' \<and> rating r \<noteq> ''Very Weak'')"
  using rating_password [of latin1_only] by auto

text \<open>
  Claim C2, amended. Evaluating \<^verbatim>\<open>password\<close> with the fallback set (the word list is
  absent) triggers the common-password penalty \<open>-2\<close>, does not trigger the pattern
  penalty, and gives score \<open>2 + 1 + 0 - 2 + 2 = 3\<close> and the rating "Weak".
\<close>

theorem password_scenario:
  "init U Missing (str ''password'') = Inr (fresh fallback_passwords (str ''password'')) \<and>
   fst (check_common_password U (fresh fallback_passwords (str ''password''))) = - 2 \<and>
   fst (check_common_patterns U (fresh fallback_passwords (str ''password''))) = 0 \<and>
   (\<exists>r. fst (evaluate U (fresh fallback_passwords (str ''password''))) = Inr r \<and>
        res_score r = 3 \<and> rating r = ''Weak'')"
proof -
  have "fst (check_common_patterns U (fresh fallback_passwords (str ''password''))) = 0"
    by (simp add: check_common_patterns_def Let_def concrete)
  moreover have "fst (check_common_password U (fresh fallback_passwords (str ''password''))) = - 2"
    by (simp add: check_common_password_def concrete)
  ultimately show ?thesis using rating_password [of U] by (simp add: init_Missing)
qed

section \<open>Further properties of evaluation and of the word list\<close>

lemma evaluate_fresh_raises_iff:
  "fst (evaluate U (fresh cp pw)) = Inl OverflowError \<longleftrightarrow>
   1024 \<le> calculate_entropy U (fresh cp pw)"
proof (cases "1024 \<le> calculate_entropy U (fresh cp pw)")
  case True
  then show ?thesis using evaluate_overflows [OF fresh_index_ok, of U cp pw] by simp
next
  case False
  then have "calculate_entropy U (fresh cp pw) < 1024" by simp
  from evaluate_returns [OF fresh_index_ok this] False show ?thesis by auto
qed

lemma empty_password_evaluates:
  "\<exists>r. fst (evaluate U (fresh cp [])) = Inr r \<and> entropy r = 0 \<and>
       crack_time r = ''less than a minute''"
proof -
  have e: "calculate_entropy U (fresh cp []) = 0"
    by (simp add: calculate_entropy_eq)
  obtain l where l: "py_index rating_table (min (score (scored U (fresh cp [])) div 3) 4) = Inr l"
    using py_index_rating_table [OF _ min.cobounded2] fresh_index_ok [of U cp "[]"] by fastforce
  have t: "estimate_crack_time 0 = Inr ''less than a minute''"
    by (rule crack_time_short) simp
  show ?thesis using l t by (simp add: evaluate_def Let_def e round1_def)
qed

text \<open>
  Claim C3. The claim: \<^verbatim>\<open>evaluate\<close> returns a result for every input string and never
  raises. For a password of 201 letters \<^verbatim>\<open>a\<close> the entropy is \<open>201 * sqrt 26\<close>, above
  1024, and \<^verbatim>\<open>2 ** entropy\<close> in \<^verbatim>\<open>estimate_crack_time\<close> raises \<^verbatim>\<open>OverflowError\<close>,
  which leaves \<^verbatim>\<open>evaluate\<close>. In general a newly constructed checker raises it exactly
  when the length times the square root of the charset size is 1024 or more.
\<close>

theorem long_password_overflows:
  "init U Missing (replicate 201 97) = Inr (fresh fallback_passwords (replicate 201 97)) \<and>
   fst (evaluate U (fresh fallback_passwords (replicate 201 97))) = Inl OverflowError \<and>
   (fst (evaluate U (fresh cp pw)) = Inl OverflowError \<longleftrightarrow>
      1024 \<le> real (length pw) * sqrt (real (charset_size U pw)))"
proof -
  have cs: "charset_size U (replicate 201 97) = 26"
    by (simp add: charset_size_def list_ex_iff islower_def isupper_def isdigit_def
        punctuation_def)
  have "real 1024 \<le> calculate_entropy U (fresh fallback_passwords (replicate 201 97))"
    by (rule entropy_at_least [where L = 201 and c = 26]) (simp_all add: cs)
  then have "fst (evaluate U (fresh fallback_passwords (replicate 201 97))) = Inl OverflowError"
    using evaluate_overflows [OF fresh_index_ok, of U fallback_passwords "replicate 201 97"]
    by simp
  moreover have "fst (evaluate U (fresh cp pw)) = Inl OverflowError \<longleftrightarrow>
      1024 \<le> real (length pw) * sqrt (real (charset_size U pw))"
    using evaluate_fresh_raises_iff [of U cp pw] by (simp add: calculate_entropy_eq)
  ultimately show ?thesis by (simp add: init_Missing)
qed

text \<open>
  Claim C5. For every password and every set of common passwords, the score of a
  newly constructed checker after \<^verbatim>\<open>evaluate\<close> is the sum of the length sub-score (one of
  0, 2, 3, 4), the character-class sub-score (0 to 4), the pattern penalty (0 or -2), the
  common-password penalty (0 or -2) and the entropy bonus (0 to 5); it lies between -4
  and 17, and it is the score of the returned dictionary whenever one is returned.
\<close>

theorem score_sum_and_range:
  "(let s = fresh cp pw;
        a = fst (check_length s);
        b = fst (check_character_types U s);
        c = fst (check_common_patterns U s);
        d = fst (check_common_password U s);
        e = entropy_bonus (calculate_entropy U s);
        out = evaluate U s
    in score (snd out) = a + b + c + d + e \<and>
       a \<in> {0, 2, 3, 4} \<and> 0 \<le> b \<and> b \<le> 4 \<and> c \<in> {0, - 2} \<and> d \<in> {0, - 2} \<and>
       0 \<le> e \<and> e \<le> 5 \<and>
       - 4 \<le> score (snd out) \<and> score (snd out) \<le> 17 \<and>
       (\<forall>r. fst out = Inr r \<longrightarrow> res_score r = score (snd out)))"
proof -
  let ?s = "fresh cp pw"
  have sum: "score (scored U ?s) =
      fst (check_length ?s) + fst (check_character_types U ?s) +
      fst (check_common_patterns U ?s) + fst (check_common_password U ?s) +
      entropy_bonus (calculate_entropy U ?s)"
    by (simp add: scored_score)
  have bounds: "- 4 \<le> score (scored U ?s)" "score (scored U ?s) \<le> 17"
    using scored_score_bounds [of ?s U] by simp_all
  have res: "\<forall>r. fst (evaluate U ?s) = Inr r \<longrightarrow> res_score r = score (scored U ?s)"
    by (auto simp add: evaluate_def Let_def split: sum.splits)
  show ?thesis
    unfolding Let_def evaluate_snd
    using sum bounds res check_length_range [of ?s] check_character_types_range [of U ?s]
      check_common_patterns_range [of U ?s] check_common_password_range [of U ?s]
      entropy_bonus_range [OF calculate_entropy_nonneg, of U ?s]
    by blast
qed

text \<open>
  Claim C5, at the password \<^verbatim>\<open>password\<close> with the fallback set: a dictionary is
  returned and its score is the sum of the five parts.
\<close>

theorem score_sum_and_range_witness:
  "\<exists>r. fst (evaluate latin1_only (fresh fallback_passwords (str ''password''))) = Inr r \<and>
       res_score r = 2 + 1 + 0 + (- 2) + 2 \<and> - 4 \<le> res_score r \<and> res_score r \<le> 17"
proof -
  obtain r where r: "fst (evaluate latin1_only (fresh fallback_passwords (str ''password''))) = Inr r"
    using rating_password [of latin1_only] by blast
  from score_sum_and_range [of fallback_passwords "str ''password''" latin1_only] r
  have "res_score r = score (scored latin1_only (fresh fallback_passwords (str ''password'')))"
    and "- 4 \<le> score (scored latin1_only (fresh fallback_passwords (str ''password'')))"
    and "score (scored latin1_only (fresh fallback_passwords (str ''password''))) \<le> 17"
    by (simp_all add: Let_def)
  with r show ?thesis by (simp add: score_password)
qed

text \<open>
  Claim C6. For every password, evaluating a newly constructed checker never raises
  \<^verbatim>\<open>IndexError\<close>: the index \<open>min(score // 3, 4)\<close> is between -2 and 4, inside the table
  of five labels also when the score is negative. A returned dictionary has an integer
  score between -4 and 13 and one of the five labels as its rating.
\<close>

theorem rating_always_in_table:
  "fst (evaluate U (fresh cp pw)) \<noteq> Inl IndexError \<and>
   (\<forall>r. fst (evaluate U (fresh cp pw)) = Inr r \<longrightarrow>
        rating r \<in> set rating_table \<and> - 4 \<le> res_score r \<and> res_score r \<le> 13)"
proof (cases "1024 \<le> calculate_entropy U (fresh cp pw)")
  case True
  then show ?thesis using evaluate_overflows [OF fresh_index_ok, of U cp pw] by simp
next
  case False
  then have "calculate_entropy U (fresh cp pw) < 1024" by simp
  from evaluate_returns [OF fresh_index_ok this] scored_score_bounds [of "fresh cp pw" U]
  show ?thesis by auto
qed

text \<open>
  Claim C6, at the password \<^verbatim>\<open>123456\<close> with the fallback set, whose score is
  negative: a dictionary is returned and its rating is in the table.
\<close>

theorem rating_always_in_table_witness:
  "\<exists>r. fst (evaluate latin1_only (fresh fallback_passwords (str ''123456''))) = Inr r \<and>
       rating r \<in> set rating_table \<and> res_score r = - 3"
proof -
  obtain r where r: "fst (evaluate latin1_only (fresh fallback_passwords (str ''123456''))) = Inr r"
      "res_score r = - 3"
    using evaluate_returns [OF fresh_index_ok, of latin1_only fallback_passwords "str ''123456''"]
      entropy_123456 [of latin1_only]
    by (auto simp add: score_123456)
  from rating_always_in_table [of latin1_only fallback_passwords "str ''123456''"] r
  show ?thesis by simp
qed

lemma check_length_feedback:
  "length' s = length' t \<Longrightarrow> feedback s = F @ feedback t \<Longrightarrow>
   feedback (snd (check_length s)) = F @ feedback (snd (check_length t))"
  by (simp add: check_length_def)

lemma check_character_types_feedback:
  "password s = password t \<Longrightarrow> feedback s = F @ feedback t \<Longrightarrow>
   feedback (snd (check_character_types U s)) = F @ feedback (snd (check_character_types U t))"
  by (simp add: check_character_types_def Let_def)

lemma check_common_patterns_feedback:
  "password s = password t \<Longrightarrow> feedback s = F @ feedback t \<Longrightarrow>
   feedback (snd (check_common_patterns U s)) = F @ feedback (snd (check_common_patterns U t))"
  by (simp add: check_common_patterns_def Let_def)

lemma check_common_password_feedback:
  "password s = password t \<Longrightarrow> common_passwords s = common_passwords t \<Longrightarrow>
   feedback s = F @ feedback t \<Longrightarrow>
   feedback (snd (check_common_password U s)) = F @ feedback (snd (check_common_password U t))"
  by (simp add: check_common_password_def)

lemma scored_feedback:
  assumes "password s = password t" and "length' s = length' t"
    and "common_passwords s = common_passwords t" and "feedback s = F @ feedback t"
  shows "feedback (scored U s) = F @ feedback (scored U t)"
proof -
  let ?s1 = "add_score (check_length s)" and ?t1 = "add_score (check_length t)"
  let ?s2 = "add_score (check_character_types U ?s1)"
  let ?t2 = "add_score (check_character_types U ?t1)"
  let ?s3 = "add_score (check_common_patterns U ?s2)"
  let ?t3 = "add_score (check_common_patterns U ?t2)"
  let ?s4 = "add_score (check_common_password U ?s3)"
  let ?t4 = "add_score (check_common_password U ?t3)"
  have f1: "feedback ?s1 = F @ feedback ?t1"
    using check_length_feedback [OF assms(2,4)] by simp
  have f2: "feedback ?s2 = F @ feedback ?t2"
    using check_character_types_feedback [OF _ f1, of U] assms(1) by simp
  have f3: "feedback ?s3 = F @ feedback ?t3"
    using check_common_patterns_feedback [OF _ f2, of U] assms(1) by simp
  have f4: "feedback ?s4 = F @ feedback ?t4"
    using check_common_password_feedback [OF _ _ f3, of U] assms(1,3) by simp
  then show ?thesis by (simp add: scored_def Let_def)
qed

lemma scored_score_shift:
  assumes "password s = password t" and "length' s = length' t"
    and "common_passwords s = common_passwords t"
  shows "score (scored U s) - score s = score (scored U t) - score t"
  using check_length_cong [OF assms(2)] check_character_types_cong [OF assms(1), of U]
    check_common_patterns_cong [OF assms(1), of U]
    check_common_password_cong [OF assms(1,3), of U]
    calculate_entropy_cong [OF assms(1,2), of U]
  by (simp add: scored_score)

lemma check_length_appends:
  "\<exists>m. feedback (snd (check_length s)) = feedback s @ [m]"
  by (simp add: check_length_def)

lemma check_character_types_extends:
  "\<exists>ms. feedback (snd (check_character_types U s)) = feedback s @ ms"
  by (simp add: check_character_types_def Let_def)

lemma check_common_patterns_extends:
  "\<exists>ms. feedback (snd (check_common_patterns U s)) = feedback s @ ms"
  by (simp add: check_common_patterns_def Let_def)

lemma check_common_password_extends:
  "\<exists>ms. feedback (snd (check_common_password U s)) = feedback s @ ms"
  by (simp add: check_common_password_def)

lemma scored_feedback_grows:
  "\<exists>m ms. feedback (scored U s) = feedback s @ m # ms"
proof -
  let ?s1 = "add_score (check_length s)"
  let ?s2 = "add_score (check_character_types U ?s1)"
  let ?s3 = "add_score (check_common_patterns U ?s2)"
  let ?s4 = "add_score (check_common_password U ?s3)"
  obtain m where f1: "feedback ?s1 = feedback s @ [m]"
    using check_length_appends [of s] by auto
  obtain a where f2: "feedback ?s2 = feedback ?s1 @ a"
    using check_character_types_extends [of U ?s1] by auto
  obtain b where f3: "feedback ?s3 = feedback ?s2 @ b"
    using check_common_patterns_extends [of U ?s2] by auto
  obtain c where f4: "feedback ?s4 = feedback ?s3 @ c"
    using check_common_password_extends [of U ?s3] by auto
  have "feedback (scored U s) = feedback ?s4" by (simp add: scored_def Let_def)
  then have "feedback (scored U s) = feedback s @ m # (a @ b @ c)"
    by (simp only: f4 f3 f2 f1) simp
  then show ?thesis by blast
qed

lemma check_length_feedback_okay:
  "8 \<le> length' s \<Longrightarrow> length' s < 12 \<Longrightarrow>
   feedback (snd (check_length s)) = feedback s @ [''Length is okay but could be longer.'']"
  by (simp add: check_length_def)

lemma check_character_types_feedback_mix:
  assumes "fst (check_character_types U s) < 3"
  shows "feedback (snd (check_character_types U s)) =
     feedback s @ [''Use a mix of upper, lower, digits, and special chars.'']"
proof -
  let ?T = "of_bool (list_ex (islower U) (password s)) +
            of_bool (list_ex (isupper U) (password s)) +
            of_bool (list_ex (isdigit U) (password s)) +
            of_bool (list_ex (\<lambda>c. c \<in> set punctuation) (password s)) :: int"
  have eq: "check_character_types U s =
      (if ?T < 3
       then (?T, append_feedback ''Use a mix of upper, lower, digits, and special chars.'' s)
       else (?T, s))"
    by (simp only: check_character_types_def Let_def)
  show ?thesis
  proof (cases "?T < 3")
    case True
    then show ?thesis by (simp only: eq if_True snd_conv append_feedback_fields)
  next
    case False
    then have "fst (check_character_types U s) = ?T" by (simp only: eq if_False fst_conv)
    with assms False show ?thesis by (simp only:)
  qed
qed

lemma check_common_patterns_feedback_none:
  "fst (check_common_patterns U s) = 0 \<Longrightarrow>
   feedback (snd (check_common_patterns U s)) = feedback s"
  by (simp add: check_common_patterns_def Let_def split: if_splits)

lemma check_common_password_feedback_common:
  "fst (check_common_password U s) = - 2 \<Longrightarrow>
   feedback (snd (check_common_password U s)) = feedback s @ [''This password is too common!'']"
  by (simp add: check_common_password_def split: if_splits)

lemma feedback_password:
  "feedback (scored U (fresh fallback_passwords (str ''password''))) =
     [''Length is okay but could be longer.'',
      ''Use a mix of upper, lower, digits, and special chars.'',
      ''This password is too common!'']"
proof -
  let ?s0 = "fresh fallback_passwords (str ''password'')"
  let ?s1 = "add_score (check_length ?s0)"
  let ?s2 = "add_score (check_character_types U ?s1)"
  let ?s3 = "add_score (check_common_patterns U ?s2)"
  let ?s4 = "add_score (check_common_password U ?s3)"
  have len: "length' ?s0 = 8" by (simp add: str_def)
  have f1: "feedback ?s1 = [''Length is okay but could be longer.'']"
    using check_length_feedback_okay [of ?s0] len by simp
  have "fst (check_character_types U ?s0) = 1"
    by (simp add: check_character_types_def Let_def concrete)
  moreover have "fst (check_character_types U ?s1) = fst (check_character_types U ?s0)"
    by (rule check_character_types_cong) simp
  ultimately have "fst (check_character_types U ?s1) < 3" by simp
  from check_character_types_feedback_mix [OF this]
  have f2: "feedback ?s2 = feedback ?s1 @ [''Use a mix of upper, lower, digits, and special chars.'']"
    by simp
  have "fst (check_common_patterns U ?s0) = 0"
    by (simp add: check_common_patterns_def Let_def concrete)
  moreover have "fst (check_common_patterns U ?s2) = fst (check_common_patterns U ?s0)"
    by (rule check_common_patterns_cong) simp
  ultimately have "fst (check_common_patterns U ?s2) = 0" by simp
  from check_common_patterns_feedback_none [OF this]
  have f3: "feedback ?s3 = feedback ?s2" by simp
  have "fst (check_common_password U ?s0) = - 2"
    by (simp add: check_common_password_def concrete)
  moreover have "fst (check_common_password U ?s3) = fst (check_common_password U ?s0)"
    by (rule check_common_password_cong) simp_all
  ultimately have "fst (check_common_password U ?s3) = - 2" by simp
  from check_common_password_feedback_common [OF this]
  have f4: "feedback ?s4 = feedback ?s3 @ [''This password is too common!'']" by simp
  have "feedback (scored U ?s0) = feedback ?s4" by (simp add: scored_def Let_def)
  also have "\<dots> = [''Length is okay but could be longer.''] @
      [''Use a mix of upper, lower, digits, and special chars.''] @
      [''This password is too common!'']"
    by (simp only: f4 f3 f2 f1 append_assoc)
  finally show ?thesis by (simp only: append_Cons append_Nil)
qed

text \<open>
  Claim C9. \<^verbatim>\<open>evaluate\<close> does not reset \<^verbatim>\<open>self.score\<close> and \<^verbatim>\<open>self.feedback\<close>. When
  the first call on a newly constructed checker returns a dictionary, a second call on
  the same object returns one too, its score is twice the first score and its feedback
  is the first feedback followed by the same entries again. The first feedback is never
  empty (the length check always adds a line), so the second dictionary differs from
  the first: re-evaluation on the same object is not idempotent.
\<close>

theorem second_evaluate_doubles:
  assumes "evaluate U (fresh cp pw) = (Inr r1, s1)"
  shows "\<exists>r2 s2. evaluate U s1 = (Inr r2, s2) \<and>
           res_score r2 = 2 * res_score r1 \<and>
           res_feedback r2 = res_feedback r1 @ res_feedback r1 \<and>
           res_feedback r1 \<noteq> [] \<and> res_feedback r2 \<noteq> res_feedback r1 \<and> r2 \<noteq> r1"
proof -
  let ?s0 = "fresh cp pw"
  have s1: "s1 = scored U ?s0"
    using assms evaluate_snd [of U ?s0] by simp
  have small: "calculate_entropy U ?s0 < 1024"
  proof (rule ccontr)
    assume "\<not> calculate_entropy U ?s0 < 1024"
    then have "1024 \<le> calculate_entropy U ?s0" by simp
    from evaluate_overflows [OF fresh_index_ok this] assms show False by simp
  qed
  from evaluate_returns [OF fresh_index_ok small] assms
  have r1: "res_score r1 = score s1" "res_feedback r1 = feedback s1"
    by (auto simp add: s1)
  have same: "password s1 = password ?s0" "length' s1 = length' ?s0"
    "common_passwords s1 = common_passwords ?s0"
    by (simp_all add: s1)
  have "score (scored U s1) - score s1 = score (scored U ?s0) - score ?s0"
    by (rule scored_score_shift [OF same])
  then have sc: "score (scored U s1) = 2 * score s1" by (simp add: s1)
  have "feedback (scored U s1) = feedback s1 @ feedback (scored U ?s0)"
    by (rule scored_feedback [OF same]) simp
  then have fb: "feedback (scored U s1) = feedback s1 @ feedback s1" by (simp add: s1)
  have ne: "feedback s1 \<noteq> []"
    using scored_feedback_grows [of U ?s0] by (auto simp add: s1)
  have "- 4 \<le> score s1" using scored_score_bounds [of ?s0 U] by (simp add: s1)
  then have idx: "- 5 \<le> score (scored U s1) div 3"
    unfolding sc by (intro div3_lower) simp
  have ent: "calculate_entropy U s1 < 1024"
    using small by (simp add: s1)
  from evaluate_returns [OF idx ent] obtain r2 where r2:
    "evaluate U s1 = (Inr r2, scored U s1)" "res_score r2 = score (scored U s1)"
    "res_feedback r2 = feedback (scored U s1)"
    by blast
  have d: "res_feedback r2 \<noteq> res_feedback r1"
    using ne by (simp add: r2(3) fb r1(2))
  then have "r2 \<noteq> r1" by auto
  with r2 d ne show ?thesis by (simp add: sc fb r1)
qed

text \<open>
  Claim C9, at the password \<^verbatim>\<open>password\<close> with the fallback set: the first call
  returns score 3 and three feedback lines, the second score 6 and the three lines
  twice.
\<close>

theorem second_evaluate_doubles_witness:
  "\<exists>r1 s1 r2 s2.
     evaluate latin1_only (fresh fallback_passwords (str ''password'')) = (Inr r1, s1) \<and>
     evaluate latin1_only s1 = (Inr r2, s2) \<and>
     res_score r1 = 3 \<and> res_score r2 = 6 \<and>
     res_feedback r1 =
       [''Length is okay but could be longer.'',
        ''Use a mix of upper, lower, digits, and special chars.'',
        ''This password is too common!''] \<and>
     res_feedback r2 =
       [''Length is okay but could be longer.'',
        ''Use a mix of upper, lower, digits, and special chars.'',
        ''This password is too common!'',
        ''Length is okay but could be longer.'',
        ''Use a mix of upper, lower, digits, and special chars.'',
        ''This password is too common!''] \<and>
     r2 \<noteq> r1"
proof -
  let ?s0 = "fresh fallback_passwords (str ''password'')"
  obtain r1 where r1: "evaluate latin1_only ?s0 = (Inr r1, scored latin1_only ?s0)"
      "res_score r1 = 3" "res_feedback r1 = feedback (scored latin1_only ?s0)"
    using evaluate_returns [OF fresh_index_ok, of latin1_only fallback_passwords "str ''password''"]
      entropy_password [of latin1_only]
    by (auto simp add: score_password)
  from second_evaluate_doubles [OF r1(1)] obtain r2 s2 where r2:
    "evaluate latin1_only (scored latin1_only ?s0) = (Inr r2, s2)"
    "res_score r2 = 2 * res_score r1" "res_feedback r2 = res_feedback r1 @ res_feedback r1"
    "r2 \<noteq> r1"
    by blast
  have "res_feedback r1 =
       [''Length is okay but could be longer.'',
        ''Use a mix of upper, lower, digits, and special chars.'',
        ''This password is too common!'']"
    by (simp only: r1(3) feedback_password)
  with r1 r2 show ?thesis by auto
qed

lemma types_zero_iff:
  "fst (check_character_types U s) = 0 \<longleftrightarrow>
   \<not> list_ex (\<lambda>c. islower U c \<or> isupper U c \<or> isdigit U c \<or> c \<in> set punctuation) (password s)"
  by (auto simp add: check_character_types_def Let_def list_ex_iff of_bool_def)

lemma charset_size_zero_iff:
  "charset_size U pw = 0 \<longleftrightarrow>
   \<not> list_ex (\<lambda>c. islower U c \<or> isupper U c \<or> isdigit U c \<or> c \<in> set punctuation) pw"
  by (auto simp add: charset_size_def list_ex_iff)

lemma entropy_zero_iff:
  "calculate_entropy U s = 0 \<longleftrightarrow> length' s = 0 \<or> charset_size U (password s) = 0"
  by (simp add: calculate_entropy_eq)

text \<open>
  Claim C4, as stated, fails: \<^verbatim>\<open>str.islower\<close> holds of U+00E9 (e with acute), so the
  password made of this one non-ASCII character has character-class sub-score 1,
  charset size 26 and entropy \<open>sqrt 26\<close>.
\<close>

theorem non_ascii_letter_is_classified:
  "list_all (\<lambda>c. 128 \<le> c) [233 :: nat] \<and>
   fst (check_character_types latin1_only (fresh fallback_passwords [233])) = 1 \<and>
   charset_size latin1_only [233] = 26 \<and>
   calculate_entropy latin1_only (fresh fallback_passwords [233]) = sqrt 26"
  by (simp add: check_character_types_def calculate_entropy_eq charset_size_def Let_def
      islower_def isupper_def isdigit_def punctuation_def)

text \<open>
  Claim C4, amended. Punctuation is ASCII only, and on ASCII characters lowercase,
  uppercase and digit are a-z, A-Z and 0-9. A non-ASCII character counts as lowercase,
  uppercase or digit exactly when \<^verbatim>\<open>str.islower\<close>, \<^verbatim>\<open>str.isupper\<close> or \<^verbatim>\<open>str.isdigit\<close>
  holds of it. The character-class sub-score is 0 exactly when no character of the
  password is in one of the four classes so understood, and so is the entropy.
\<close>

theorem classification_by_python_predicates:
  "(fst (check_character_types U (fresh cp pw)) = 0 \<longleftrightarrow>
      \<not> list_ex (\<lambda>c. islower U c \<or> isupper U c \<or> isdigit U c \<or> c \<in> set punctuation) pw) \<and>
   (calculate_entropy U (fresh cp pw) = 0 \<longleftrightarrow>
      \<not> list_ex (\<lambda>c. islower U c \<or> isupper U c \<or> isdigit U c \<or> c \<in> set punctuation) pw) \<and>
   list_all (\<lambda>c. c < 128) punctuation \<and>
   (c < 128 \<longrightarrow>
      (islower U c \<longleftrightarrow> 97 \<le> c \<and> c \<le> 122) \<and>
      (isupper U c \<longleftrightarrow> 65 \<le> c \<and> c \<le> 90) \<and>
      (isdigit U c \<longleftrightarrow> 48 \<le> c \<and> c \<le> 57))"
proof -
  have a: "fst (check_character_types U (fresh cp pw)) = 0 \<longleftrightarrow>
      \<not> list_ex (\<lambda>c. islower U c \<or> isupper U c \<or> isdigit U c \<or> c \<in> set punctuation) pw"
    by (simp add: types_zero_iff)
  have "pw = [] \<Longrightarrow> charset_size U pw = 0" by (simp add: charset_size_def)
  then have b: "calculate_entropy U (fresh cp pw) = 0 \<longleftrightarrow>
      \<not> list_ex (\<lambda>c. islower U c \<or> isupper U c \<or> isdigit U c \<or> c \<in> set punctuation) pw"
    unfolding entropy_zero_iff charset_size_zero_iff [symmetric] by auto
  have c: "list_all (\<lambda>c. c < 128) punctuation" by (simp add: punctuation_def)
  have d: "c < 128 \<longrightarrow>
      (islower U c \<longleftrightarrow> 97 \<le> c \<and> c \<le> 122) \<and>
      (isupper U c \<longleftrightarrow> 65 \<le> c \<and> c \<le> 90) \<and>
      (isdigit U c \<longleftrightarrow> 48 \<le> c \<and> c \<le> 57)"
    by (auto simp add: islower_def isupper_def isdigit_def)
  from a b c d show ?thesis by blast
qed

text \<open>
  Claim C4, amended, at the ASCII letter \<^verbatim>\<open>a\<close> and at the password of a space,
  a multiplication sign (U+00D7) and a euro sign (U+20AC), none of them in a class.
\<close>

theorem classification_by_python_predicates_witness:
  "(97 :: nat) < 128 \<and> islower latin1_only 97 \<and>
   fst (check_character_types latin1_only (fresh fallback_passwords [32, 215, 8364])) = 0 \<and>
   calculate_entropy latin1_only (fresh fallback_passwords [32, 215, 8364]) = 0"
proof -
  have n: "\<not> list_ex (\<lambda>c. islower latin1_only c \<or> isupper latin1_only c \<or>
      isdigit latin1_only c \<or> c \<in> set punctuation) [32, 215, 8364]"
    by (simp add: islower_def isupper_def isdigit_def punctuation_def latin1_only_def)
  from classification_by_python_predicates [of latin1_only fallback_passwords "[32, 215, 8364]" 97] n
  show ?thesis by simp
qed

text \<open>
  Claim C7, as stated, fails: when the word list exists and cannot be read, \<^verbatim>\<open>open\<close>
  raises \<^verbatim>\<open>PermissionError\<close>, which \<^verbatim>\<open>except FileNotFoundError\<close> does not catch; the
  error leaves \<^verbatim>\<open>load_common_passwords\<close> and the constructor.
\<close>

theorem unreadable_resource_raises:
  "load_common_passwords latin1_only Unreadable = Inl PermissionError \<and>
   init latin1_only Unreadable (str ''password'') = Inl PermissionError"
  by (simp add: init_def load_common_passwords_def open_file_def)

text \<open>
  Claim C7, amended. When the word list does not exist, \<^verbatim>\<open>load_common_passwords\<close>
  returns the fixed fallback set of six passwords and the constructor succeeds; an error
  reaches the caller exactly when the word list exists and cannot be read.
\<close>

theorem missing_resource_falls_back:
  "load_common_passwords U Missing =
     Inr {str ''password'', str ''123456'', str ''qwerty'', str ''abc123'', str ''admin'',
          str ''welcome''} \<and>
   init U Missing pw = Inr (fresh fallback_passwords pw) \<and>
   ((\<exists>e. load_common_passwords U r = Inl e) \<longleftrightarrow> r = Unreadable)"
  by (cases r) (simp_all add: init_def load_common_passwords_def open_file_def
      fallback_passwords_def)

text \<open>
  Claim C8. The claim: every line of the word list is stripped and stored in lower
  case, so that a list containing \<^verbatim>\<open>Password\<close> flags the input \<^verbatim>\<open>password\<close>. The lines
  are stripped but keep their case, while the password is lower-cased before the
  lookup: with the one line \<^verbatim>\<open>Password\<close> in the list, the input \<^verbatim>\<open>password\<close> gets
  penalty 0.
\<close>

theorem stored_lines_keep_their_case:
  "load_common_passwords U (Lines [str ''  Password '' @ [10]]) = Inr {str ''Password''} \<and>
   init U (Lines [str ''  Password '' @ [10]]) (str ''password'') =
     Inr (fresh {str ''Password''} (str ''password'')) \<and>
   lower U (str ''password'') = str ''password'' \<and>
   fst (check_common_password U (fresh {str ''Password''} (str ''password''))) = 0"
  by (simp add: init_def load_common_passwords_def open_file_def strip_def isspace_def
      check_common_password_def str_def lower_def tolower_latin1_def)

text \<open>
  Claim C10. The special characters of the quick classifier are 20 distinct
  characters, all of them in \<^verbatim>\<open>string.punctuation\<close>, which has more. The password
  \<^verbatim>\<open>Abcdefghij1_\<close>, of length 12 with the underscore as its only punctuation character,
  gets 4 from \<^verbatim>\<open>check_character_types\<close> and "Weak" from \<^verbatim>\<open>simple_strength_check\<close>.
\<close>

theorem quick_classifier_narrower_symbols:
  "set special_chars \<subset> set punctuation \<and>
   length special_chars = 20 \<and> distinct special_chars \<and>
   length (str ''Abcdefghij1_'') = 12 \<and>
   filter (\<lambda>c. c \<in> set punctuation) (str ''Abcdefghij1_'') = str ''_'' \<and>
   fst (check_character_types U (fresh cp (str ''Abcdefghij1_''))) = 4 \<and>
   simple_strength_check U (str ''Abcdefghij1_'') = ''Weak''"
proof -
  have "set special_chars \<subseteq> set punctuation"
    by (simp add: special_chars_def punctuation_def str_def)
  moreover have "(95 :: nat) \<in> set punctuation" "(95 :: nat) \<notin> set special_chars"
    by (simp_all add: special_chars_def punctuation_def str_def)
  ultimately have "set special_chars \<subset> set punctuation" by blast
  moreover have "length special_chars = 20" "distinct special_chars"
    by (simp_all add: special_chars_def str_def)
  moreover have "filter (\<lambda>c. c \<in> set punctuation) (str ''Abcdefghij1_'') = str ''_''"
    by (simp add: punctuation_def str_def)
  moreover have "fst (check_character_types U (fresh cp (str ''Abcdefghij1_''))) = 4"
    by (simp add: check_character_types_def Let_def concrete)
  moreover have "simple_strength_check U (str ''Abcdefghij1_'') = ''Weak''"
    by (simp add: simple_strength_check_def special_chars_def isdecimal_def str_def)
  ultimately show ?thesis by (simp add: str_def)
qed

end
